theory Spec2Isabelle
  imports Main "HOL-Library.AList"
begin

section \<open>Python values\<close>

text \<open>
  The values that flow through \<^verbatim>\<open>settings_parser.py\<close>: strings (every value read from
  the environment), nested dictionaries with string keys, integers (scalars of a settings
  file) and \<^verbatim>\<open>None\<close> (what \<^verbatim>\<open>_read_file\<close> returns when it falls through).
  A dictionary is an association list in insertion order, which is the order Python
  iterates it in; a well-formed one has no key twice (\<open>well_formed\<close> below).
\<close>

datatype pyval =
    PNone
  | PInt int
  | PStr string
  | PDict "(string \<times> pyval) list"

text \<open>
  The \<^verbatim>\<open>filters\<close> argument: \<^verbatim>\<open>None\<close>, a string, a mapping from section names to
  filters, or another iterable of filters. \<open>FInt\<close> stands for the values that are none of
  these (a number).
\<close>

datatype filter_spec =
    FNone
  | FInt int
  | FStr string
  | FMapping "(string \<times> filter_spec) list"
  | FIterable "filter_spec list"

datatype error =
  TypeError | ValueError | KeyError | IndexError | AttributeError | IOError | TomlDecodeError

text \<open>Whether a call returned the object bound to its \<^verbatim>\<open>data\<close> parameter or another one.\<close>

datatype origin = SameObject | OtherObject

fun is_mapping :: "pyval \<Rightarrow> bool" where
  "is_mapping (PDict _) = True"
| "is_mapping _ = False"

fun truthy :: "filter_spec \<Rightarrow> bool" where
  "truthy FNone = False"
| "truthy (FInt n) = (n \<noteq> 0)"
| "truthy (FStr s) = (s \<noteq> [])"
| "truthy (FMapping kvs) = (kvs \<noteq> [])"
| "truthy (FIterable fs) = (fs \<noteq> [])"

fun well_formed :: "pyval \<Rightarrow> bool" where
  "well_formed (PDict kvs) = (distinct (map fst kvs) \<and> (\<forall>v \<in> snd ` set kvs. well_formed v))"
| "well_formed _ = True"

subsection \<open>Dictionary primitives\<close>

text \<open>\<^verbatim>\<open>d[k]\<close>: only a dictionary can be indexed by a string.\<close>

fun getitem :: "pyval \<Rightarrow> string \<Rightarrow> error + pyval" where
  "getitem (PDict kvs) k = (case map_of kvs k of None \<Rightarrow> Inl KeyError | Some v \<Rightarrow> Inr v)"
| "getitem _ k = Inl TypeError"

text \<open>\<^verbatim>\<open>d.get(k, {})\<close>: only a dictionary has the method.\<close>

fun get_default :: "pyval \<Rightarrow> string \<Rightarrow> error + pyval" where
  "get_default (PDict kvs) k = (case map_of kvs k of None \<Rightarrow> Inr (PDict []) | Some v \<Rightarrow> Inr v)"
| "get_default _ k = Inl AttributeError"

text \<open>\<^verbatim>\<open>d[k] = v\<close>: a present key keeps its position, a new one goes last.\<close>

fun setitem :: "pyval \<Rightarrow> string \<Rightarrow> pyval \<Rightarrow> error + pyval" where
  "setitem (PDict kvs) k v = Inr (PDict (AList.update k v kvs))"
| "setitem _ k v = Inl TypeError"

text \<open>
  \<^verbatim>\<open>new_data.update(other)\<close> on a dictionary \<open>new_data\<close>: a mapping is copied entry by
  entry; any other argument is iterated as a sequence of pairs, so the empty string adds
  nothing, a non-empty string fails on its first character (a sequence of length 1), and
  a number or \<^verbatim>\<open>None\<close> is not iterable.
\<close>

fun dict_update :: "(string \<times> pyval) list \<Rightarrow> pyval \<Rightarrow> error + (string \<times> pyval) list" where
  "dict_update nd (PDict kvs) = Inr (fold (\<lambda>(k, v). AList.update k v) kvs nd)"
| "dict_update nd (PStr s) = (if s = [] then Inr nd else Inl ValueError)"
| "dict_update nd (PInt n) = Inl TypeError"
| "dict_update nd PNone = Inl TypeError"

section \<open>\<^verbatim>\<open>update_nested\<close>\<close>

text \<open>
  \<^verbatim>\<open>
  def update_nested(d, u):
      for k, v in u.items():
          if isinstance(v, Mapping):
              r = update_nested(d.get(k, {}), v)
              d[k] = r
          else:
              d[k] = u[k]
      return d
  \<close>
  \<open>update_items\<close> is the loop over \<^verbatim>\<open>u.items()\<close>; the mutated \<open>d\<close> is passed on.
\<close>

fun update_items :: "pyval \<Rightarrow> (string \<times> pyval) list \<Rightarrow> error + pyval" where
  "update_items d [] = Inr d"
| "update_items d ((k, v) # rest) =
     (case v of
        PDict vs \<Rightarrow>
          (case get_default d k of
             Inl e \<Rightarrow> Inl e
           | Inr d0 \<Rightarrow>
               (case update_items d0 vs of
                  Inl e \<Rightarrow> Inl e
                | Inr r \<Rightarrow>
                    (case setitem d k r of
                       Inl e \<Rightarrow> Inl e
                     | Inr d' \<Rightarrow> update_items d' rest)))
      | _ \<Rightarrow>
          (case setitem d k v of
             Inl e \<Rightarrow> Inl e
           | Inr d' \<Rightarrow> update_items d' rest))"

fun update_nested :: "pyval \<Rightarrow> pyval \<Rightarrow> error + pyval" where
  "update_nested d (PDict kvs) = update_items d kvs"
| "update_nested d _ = Inl AttributeError"

section \<open>\<^verbatim>\<open>subtree\<close>\<close>

text \<open>\<^verbatim>\<open>sep.join(parts)\<close>\<close>

fun join :: "string \<Rightarrow> string list \<Rightarrow> string" where
  "join sep [] = []"
| "join sep [x] = x"
| "join sep (x # y # ys) = x @ sep @ join sep (y # ys)"

text \<open>\<^verbatim>\<open>'Section {}.{} not found in data'.format(parent_str, key)\<close>\<close>

definition not_found_msg :: "string list \<Rightarrow> string \<Rightarrow> string" where
  "not_found_msg parent_hierarchy key =
     ''Section '' @ join ''.'' parent_hierarchy @ ''.'' @ key @ '' not found in data''"

text \<open>
  A call of \<^verbatim>\<open>subtree\<close> yields the warnings it logged, in order, and either the error
  it raised or the value it returned together with the \<open>origin\<close> of the returned object.
  \<^verbatim>\<open>deepcopy\<close> keeps the value and gives another object.
  \<^verbatim>\<open>
  def subtree(data, filters=None, parent_hierarchy=()):
      if not parent_hierarchy:
          parent_hierarchy = []
      else:
          parent_hierarchy = list(parent_hierarchy)
      if not filters or filters == '*':
          return data
      if isinstance(filters, str):
          key = filters
          try:
              return deepcopy(data[key])
          except KeyError:
              parent_str = '.'.join(parent_hierarchy)
              logger.warning('Section {}.{} not found in data'.format(parent_str, key))
              return {}
      elif isinstance(filters, Mapping):
          new_data = {}
          parent_hierarchy = parent_hierarchy + []
          for k, v in filters.items():
              subdata_root = subtree(data, k)
              subdata = subtree(subdata_root, v, parent_hierarchy=parent_hierarchy + [k])
              new_data.update(subdata)
          return new_data
      elif isinstance(filters, Iterable):
          new_data = {}
          parent_hierarchy = parent_hierarchy + []
          for f in filters:
              new_data.update(subtree(data, f, parent_hierarchy=parent_hierarchy))
          return new_data
      else:
          raise TypeError('filters must be strings or iterables')
  \<close>
  \<open>subtree_mapping\<close> and \<open>subtree_iterable\<close> are the two loops, with \<open>new_data\<close> as
  accumulator.
\<close>

type_synonym subtree_result = "string list \<times> (error + pyval \<times> origin)"

fun subtree :: "pyval \<Rightarrow> filter_spec \<Rightarrow> string list \<Rightarrow> subtree_result"
  and subtree_mapping ::
    "pyval \<Rightarrow> (string \<times> filter_spec) list \<Rightarrow> string list \<Rightarrow> (string \<times> pyval) list \<Rightarrow> subtree_result"
  and subtree_iterable ::
    "pyval \<Rightarrow> filter_spec list \<Rightarrow> string list \<Rightarrow> (string \<times> pyval) list \<Rightarrow> subtree_result"
where
  "subtree data filters parent_hierarchy =
     (if \<not> truthy filters \<or> filters = FStr ''*'' then ([], Inr (data, SameObject))
      else case filters of
        FStr key \<Rightarrow>
          (case getitem data key of
             Inr v \<Rightarrow> ([], Inr (v, OtherObject))
           | Inl KeyError \<Rightarrow> ([not_found_msg parent_hierarchy key], Inr (PDict [], OtherObject))
           | Inl e \<Rightarrow> ([], Inl e))
      | FMapping kvs \<Rightarrow> subtree_mapping data kvs parent_hierarchy []
      | FIterable fs \<Rightarrow> subtree_iterable data fs parent_hierarchy []
      | _ \<Rightarrow> ([], Inl TypeError))"
| "subtree_mapping data [] parent_hierarchy new_data = ([], Inr (PDict new_data, OtherObject))"
| "subtree_mapping data ((k, v) # rest) parent_hierarchy new_data =
     (case subtree data (FStr k) [] of
        (w1, Inl e) \<Rightarrow> (w1, Inl e)
      | (w1, Inr (subdata_root, _)) \<Rightarrow>
          (case subtree subdata_root v (parent_hierarchy @ [k]) of
             (w2, Inl e) \<Rightarrow> (w1 @ w2, Inl e)
           | (w2, Inr (subdata, _)) \<Rightarrow>
               (case dict_update new_data subdata of
                  Inl e \<Rightarrow> (w1 @ w2, Inl e)
                | Inr new_data' \<Rightarrow>
                    (case subtree_mapping data rest parent_hierarchy new_data' of
                       (w3, r) \<Rightarrow> (w1 @ w2 @ w3, r)))))"
| "subtree_iterable data [] parent_hierarchy new_data = ([], Inr (PDict new_data, OtherObject))"
| "subtree_iterable data (f # rest) parent_hierarchy new_data =
     (case subtree data f parent_hierarchy of
        (w1, Inl e) \<Rightarrow> (w1, Inl e)
      | (w1, Inr (subdata, _)) \<Rightarrow>
          (case dict_update new_data subdata of
             Inl e \<Rightarrow> (w1, Inl e)
           | Inr new_data' \<Rightarrow>
               (case subtree_iterable data rest parent_hierarchy new_data' of
                  (w2, r) \<Rightarrow> (w1 @ w2, r))))"

section \<open>String methods\<close>

text \<open>
  Strings are modelled on ASCII: \<^verbatim>\<open>lower\<close> and \<^verbatim>\<open>upper\<close> change the 26 letters and
  leave every other character as it is.
\<close>

definition ascii_uppercase :: string where
  "ascii_uppercase = ''ABCDEFGHIJKLMNOPQRSTUVWXYZ''"

definition ascii_lowercase :: string where
  "ascii_lowercase = ''abcdefghijklmnopqrstuvwxyz''"

definition lower_char :: "char \<Rightarrow> char" where
  "lower_char c = (case map_of (zip ascii_uppercase ascii_lowercase) c of Some l \<Rightarrow> l | None \<Rightarrow> c)"

definition upper_char :: "char \<Rightarrow> char" where
  "upper_char c = (case map_of (zip ascii_lowercase ascii_uppercase) c of Some u \<Rightarrow> u | None \<Rightarrow> c)"

definition py_lower :: "string \<Rightarrow> string" where
  "py_lower s = map lower_char s"

definition py_upper :: "string \<Rightarrow> string" where
  "py_upper s = map upper_char s"

text \<open>\<^verbatim>\<open>s.lstrip(chars)\<close>, \<^verbatim>\<open>s.rstrip(chars)\<close>, \<^verbatim>\<open>s.strip(chars)\<close>\<close>

definition py_lstrip :: "string \<Rightarrow> string \<Rightarrow> string" where
  "py_lstrip chars s = dropWhile (\<lambda>c. c \<in> set chars) s"

definition py_rstrip :: "string \<Rightarrow> string \<Rightarrow> string" where
  "py_rstrip chars s = rev (dropWhile (\<lambda>c. c \<in> set chars) (rev s))"

definition py_strip :: "string \<Rightarrow> string \<Rightarrow> string" where
  "py_strip chars s = py_rstrip chars (py_lstrip chars s)"

text \<open>
  \<^verbatim>\<open>s.lstrip()\<close> removes leading whitespace: among the characters below 256, the
  codes 9 to 13, 28 to 32, 133 and 160.
\<close>

definition is_space :: "char \<Rightarrow> bool" where
  "is_space c = ((of_char c :: nat) \<in> set [9, 10, 11, 12, 13, 28, 29, 30, 31, 32, 133, 160])"

definition lstrip_space :: "string \<Rightarrow> string" where
  "lstrip_space s = dropWhile is_space s"

definition startswith :: "string \<Rightarrow> string \<Rightarrow> bool" where
  "startswith s p = (take (length p) s = p)"

text \<open>
  \<^verbatim>\<open>s.split(sep, maxsplit)\<close> for a separator of one character: at most \<open>n\<close> cuts, from
  the left; the last piece keeps any further separators. A string without the separator,
  the empty string too, gives the one-element list of itself. A negative
  \<^verbatim>\<open>maxsplit\<close> is no limit.
\<close>

fun split_n :: "char \<Rightarrow> nat \<Rightarrow> string \<Rightarrow> string list" where
  "split_n c 0 s = [s]"
| "split_n c (Suc n) s =
     (if c \<in> set s
      then takeWhile (\<lambda>x. x \<noteq> c) s # split_n c n (tl (dropWhile (\<lambda>x. x \<noteq> c) s))
      else [s])"

definition py_split :: "string \<Rightarrow> char \<Rightarrow> int \<Rightarrow> string list" where
  "py_split s c maxsplit = split_n c (if maxsplit < 0 then length s else nat maxsplit) s"

section \<open>\<^verbatim>\<open>build_env_var\<close>\<close>

text \<open>
  \<^verbatim>\<open>
  def build_env_var(*parts, split_char='_'):
      return '_'.join(p.strip(split_char).upper() for p in parts)
  \<close>
\<close>

definition build_env_var :: "string list \<Rightarrow> string \<Rightarrow> string" where
  "build_env_var parts split_char = join ''_'' (map (\<lambda>p. py_upper (py_strip split_char p)) parts)"

section \<open>Effects\<close>

text \<open>
  What a call does to the outside, in order: reading one environment variable, iterating
  the environment, asking whether a path is a file, opening a file, and the two kinds of
  log record. A computation yields its events and either an error or a value; events
  emitted before an error are kept.
\<close>

datatype event =
    EnvGet string
  | EnvScan
  | IsFile string
  | OpenFile string
  | LogInfo string
  | LogWarning string

type_synonym 'a io = "event list \<times> (error + 'a)"

definition io_bind :: "'a io \<Rightarrow> ('a \<Rightarrow> 'b io) \<Rightarrow> 'b io" where
  "io_bind m f =
     (case m of
        (ev, Inl e) \<Rightarrow> (ev, Inl e)
      | (ev, Inr x) \<Rightarrow> (case f x of (ev', r) \<Rightarrow> (ev @ ev', r)))"

definition pure_io :: "error + 'a \<Rightarrow> 'a io" where
  "pure_io r = ([], r)"

section \<open>\<^verbatim>\<open>parse_env_vars\<close>\<close>

text \<open>
  The dictionary \<^verbatim>\<open>update\<close> built from \<^verbatim>\<open>nested_keys\<close>:
  \<^verbatim>\<open>
        update = {}
        u = update
        for nk in nested_keys[:-1]:
            u[nk] = {}
            u = u[nk]
        value = os.environ[env_var]
        u[nested_keys[-1]] = value
  \<close>
  On an empty list \<^verbatim>\<open>nested_keys[-1]\<close> is out of range.
\<close>

fun build_update :: "string list \<Rightarrow> pyval \<Rightarrow> error + pyval" where
  "build_update [] v = Inl IndexError"
| "build_update [k] v = Inr (PDict [(k, v)])"
| "build_update (k # k' # ks) v =
     (case build_update (k' # ks) v of Inl e \<Rightarrow> Inl e | Inr u \<Rightarrow> Inr (PDict [(k, u)]))"

text \<open>
  The loop \<^verbatim>\<open>for env_var in os.environ\<close>, over the environment's entries in its
  iteration order, each entry being the variable's name and \<^verbatim>\<open>os.environ[env_var]\<close>:
  \<^verbatim>\<open>
    for env_var in os.environ:
        env_var_lower = env_var.lower()
        if env_var_lower in exclude_set or not env_var_lower.startswith(env_prefix):
            continue
        nested_keys = env_var_lower[len(env_prefix):].split(split_char, max_depth)
        if not nested_keys:
            continue
        ...
        logger.info('Getting settings from env var: {}'.format(env_var))
        update_nested(settings_map, update)
    return settings_map
  \<close>
\<close>

fun env_loop ::
  "string list \<Rightarrow> string \<Rightarrow> char \<Rightarrow> int \<Rightarrow> (string \<times> string) list \<Rightarrow> pyval \<Rightarrow> pyval io"
where
  "env_loop exclude_set env_prefix split_char max_depth [] settings_map = ([], Inr settings_map)"
| "env_loop exclude_set env_prefix split_char max_depth ((env_var, val) # rest) settings_map =
     (let env_var_lower = py_lower env_var in
      if env_var_lower \<in> set exclude_set \<or> \<not> startswith env_var_lower env_prefix
      then env_loop exclude_set env_prefix split_char max_depth rest settings_map
      else
        let nested_keys = py_split (drop (length env_prefix) env_var_lower) split_char max_depth in
        if nested_keys = []
        then env_loop exclude_set env_prefix split_char max_depth rest settings_map
        else
          (case build_update nested_keys (PStr val) of
             Inl e \<Rightarrow> ([], Inl e)
           | Inr update \<Rightarrow>
               (case update_nested settings_map update of
                  Inl e \<Rightarrow> ([LogInfo (''Getting settings from env var: '' @ env_var)], Inl e)
                | Inr settings_map' \<Rightarrow>
                    (case env_loop exclude_set env_prefix split_char max_depth rest settings_map' of
                       (ev, r) \<Rightarrow>
                         (LogInfo (''Getting settings from env var: '' @ env_var) # ev, r)))))"

text \<open>
  \<^verbatim>\<open>
  def parse_env_vars(env_prefix=None, max_depth=1, split_char='_', exclude=()):
      exclude_set = set(s.lower() for s in exclude)
      settings_map = {}
      if len(split_char) != 1:
          raise ValueError('``split_char`` must be a single character')
      split_char = split_char.lower()
      env_prefix = env_prefix.lower().rstrip(split_char) + split_char
      if len(env_prefix) <= 1:
          return settings_map
      for env_var in os.environ: ...
  \<close>
  The first argument is the environment. \<^verbatim>\<open>None\<close> as prefix has no method
  \<^verbatim>\<open>lower\<close>.
\<close>

definition parse_env_vars ::
  "(string \<times> string) list \<Rightarrow> string option \<Rightarrow> int \<Rightarrow> string \<Rightarrow> string list \<Rightarrow> pyval io"
where
  "parse_env_vars environ env_prefix max_depth split_char exclude =
     (let exclude_set = map py_lower exclude in
      if length split_char \<noteq> 1 then ([], Inl ValueError)
      else
        let split_char' = py_lower split_char in
        case env_prefix of
          None \<Rightarrow> ([], Inl AttributeError)
        | Some p \<Rightarrow>
            let env_prefix' = py_rstrip split_char' (py_lower p) @ split_char' in
            if length env_prefix' \<le> 1 then ([], Inr (PDict []))
            else
              (case env_loop exclude_set env_prefix' (hd split_char') max_depth environ (PDict []) of
                 (ev, r) \<Rightarrow> (EnvScan # ev, r)))"

section \<open>The class \<^verbatim>\<open>Settings\<close>\<close>

text \<open>
  What the constructor reads from outside the program: the environment, the file system
  (\<^verbatim>\<open>os.path.isfile\<close>, and the text \<^verbatim>\<open>open\<close> gives) and the TOML library's parser,
  which \<^verbatim>\<open>toml.load\<close> applies to a file's text and \<^verbatim>\<open>toml.loads\<close> to a string.
\<close>

record world =
  environ :: "(string \<times> string) list"
  isfile :: "string \<Rightarrow> bool"
  read_text :: "string \<Rightarrow> error + string"
  toml_loads :: "string \<Rightarrow> error + pyval"

text \<open>
  The \<^verbatim>\<open>parser\<close> argument: a callable, with the truth value of the object, or a value
  that is not callable (\<^verbatim>\<open>None\<close> when the argument is left out).
\<close>

datatype parser_arg =
    Callable bool "pyval \<Rightarrow> error + pyval"
  | NotCallable pyval

fun py_truthy :: "pyval \<Rightarrow> bool" where
  "py_truthy PNone = False"
| "py_truthy (PInt n) = (n \<noteq> 0)"
| "py_truthy (PStr s) = (s \<noteq> [])"
| "py_truthy (PDict kvs) = (kvs \<noteq> [])"

fun parser_truthy :: "parser_arg \<Rightarrow> bool" where
  "parser_truthy (Callable t f) = t"
| "parser_truthy (NotCallable v) = py_truthy v"

fun callable :: "parser_arg \<Rightarrow> bool" where
  "callable (Callable t f) = True"
| "callable (NotCallable v) = False"

record settings =
  st_parse :: parser_arg
  st_filters :: filter_spec
  st_env_prefix :: string
  st_settings_file_env_suffix :: string
  st_settings_file_env_var :: string
  st_settings_file :: "string option"
  st_data :: pyval

text \<open>
  \<^verbatim>\<open>
    def _read_file(self):
        if self.settings_file:
            if os.path.isfile(self.settings_file):
                with open(self.settings_file) as f:
                    return toml.load(f)
            elif self.settings_file.lstrip().startswith('['):
                return toml.loads(self.settings_file)
        else:
            return {}
  \<close>
  The inner \<^verbatim>\<open>if\<close> has no \<^verbatim>\<open>else\<close>: there the method ends without a
  \<^verbatim>\<open>return\<close>, which gives \<^verbatim>\<open>None\<close>.
\<close>

definition read_file :: "world \<Rightarrow> string option \<Rightarrow> pyval io" where
  "read_file w settings_file =
     (case settings_file of
        None \<Rightarrow> ([], Inr (PDict []))
      | Some s \<Rightarrow>
          if s = [] then ([], Inr (PDict []))
          else if isfile w s then
            ([IsFile s, OpenFile s],
             case read_text w s of Inl e \<Rightarrow> Inl e | Inr contents \<Rightarrow> toml_loads w contents)
          else if startswith (lstrip_space s) ''['' then ([IsFile s], toml_loads w s)
          else ([IsFile s], Inr PNone))"

text \<open>
  \<^verbatim>\<open>
    def parse(self, data):
        if self._parse:
            return self._parse(data)
        else:
            return data
  \<close>
\<close>

definition parse :: "parser_arg \<Rightarrow> pyval \<Rightarrow> error + pyval" where
  "parse p data =
     (if parser_truthy p
      then (case p of Callable t f \<Rightarrow> f data | NotCallable v \<Rightarrow> Inl TypeError)
      else Inr data)"

text \<open>
  \<^verbatim>\<open>
    def build_settings_map(self):
        settings_map = {}
        update_nested(settings_map, self.parse_env_vars())
        update_nested(settings_map, self.read_file())
        settings_map = self.subtree(settings_map)
        return self.parse(settings_map)
  \<close>
  with \<^verbatim>\<open>self.parse_env_vars()\<close> being
  \<^verbatim>\<open>parse_env_vars(self.env_prefix, exclude=(self.settings_file_env_var,))\<close> and
  \<^verbatim>\<open>self.subtree(data)\<close> being
  \<^verbatim>\<open>subtree(data, self.filters, parent_hierarchy=['settings'])\<close>.
  \<open>merge_sources\<close> is the first three statements.
\<close>

definition settings_parse_env_vars :: "world \<Rightarrow> string \<Rightarrow> string \<Rightarrow> pyval io" where
  "settings_parse_env_vars w env_prefix settings_file_env_var =
     parse_env_vars (environ w) (Some env_prefix) 1 ''_'' [settings_file_env_var]"

definition settings_subtree :: "filter_spec \<Rightarrow> pyval \<Rightarrow> pyval io" where
  "settings_subtree filters data =
     (case subtree data filters [''settings''] of
        (ws, Inl e) \<Rightarrow> (map LogWarning ws, Inl e)
      | (ws, Inr (v, _)) \<Rightarrow> (map LogWarning ws, Inr v))"

definition merge_sources ::
  "world \<Rightarrow> string \<Rightarrow> string \<Rightarrow> string option \<Rightarrow> pyval io"
where
  "merge_sources w env_prefix settings_file_env_var settings_file =
     io_bind (settings_parse_env_vars w env_prefix settings_file_env_var) (\<lambda>env_map.
     io_bind (pure_io (update_nested (PDict []) env_map)) (\<lambda>settings_map.
     io_bind (read_file w settings_file) (\<lambda>file_map.
     pure_io (update_nested settings_map file_map))))"

definition build_settings_map ::
  "world \<Rightarrow> parser_arg \<Rightarrow> filter_spec \<Rightarrow> string \<Rightarrow> string \<Rightarrow> string option \<Rightarrow> pyval io"
where
  "build_settings_map w p filters env_prefix settings_file_env_var settings_file =
     io_bind (merge_sources w env_prefix settings_file_env_var settings_file) (\<lambda>settings_map.
     io_bind (settings_subtree filters settings_map) (\<lambda>settings_map'.
     pure_io (parse p settings_map')))"

text \<open>
  \<^verbatim>\<open>
    def __init__(self, settings_file=None, env_prefix='APP_SETTINGS',
                 settings_file_env_suffix='SETTINGS_FILE', filters=None, parser=None):
        if parser and not callable(parser):
            raise TypeError('If given, ``parser`` must be a callable')
        self._parse = parser
        self.filters = filters
        self.env_prefix = build_env_var(env_prefix)
        self.settings_file_env_suffix = settings_file_env_suffix
        self.settings_file_env_var = build_env_var(self.env_prefix, self.settings_file_env_suffix)
        self.settings_file = settings_file or os.environ.get(self.settings_file_env_var)
        self._data = self.build_settings_map()
  \<close>
  The decorator \<^verbatim>\<open>logtools.log_exception\<close> of the constructor is defined in another
  module; the constructor is modelled as it is written, without the decorator.
\<close>

definition settings_file_or_env :: "world \<Rightarrow> string option \<Rightarrow> string \<Rightarrow> string option io" where
  "settings_file_or_env w settings_file settings_file_env_var =
     (if settings_file \<noteq> None \<and> settings_file \<noteq> Some []
      then ([], Inr settings_file)
      else ([EnvGet settings_file_env_var], Inr (map_of (environ w) settings_file_env_var)))"

definition Settings ::
  "world \<Rightarrow> string option \<Rightarrow> string \<Rightarrow> string \<Rightarrow> filter_spec \<Rightarrow> parser_arg \<Rightarrow> settings io"
where
  "Settings w settings_file env_prefix settings_file_env_suffix filters parser =
     (if parser_truthy parser \<and> \<not> callable parser then ([], Inl TypeError)
      else
        let env_prefix' = build_env_var [env_prefix] ''_'';
            settings_file_env_var = build_env_var [env_prefix', settings_file_env_suffix] ''_''
        in
        io_bind (settings_file_or_env w settings_file settings_file_env_var) (\<lambda>settings_file'.
        io_bind (build_settings_map w parser filters env_prefix' settings_file_env_var
                   settings_file') (\<lambda>data.
        ([], Inr \<lparr> st_parse = parser, st_filters = filters, st_env_prefix = env_prefix',
                   st_settings_file_env_suffix = settings_file_env_suffix,
                   st_settings_file_env_var = settings_file_env_var,
                   st_settings_file = settings_file', st_data = data \<rparr>))))"

section \<open>Paths and example inputs\<close>

text \<open>The value a nested dictionary holds at a path of keys.\<close>

fun lookup_path :: "pyval \<Rightarrow> string list \<Rightarrow> pyval option" where
  "lookup_path v [] = Some v"
| "lookup_path (PDict kvs) (k # ks) =
     (case map_of kvs k of None \<Rightarrow> None | Some v \<Rightarrow> lookup_path v ks)"
| "lookup_path _ (k # ks) = None"

text \<open>
  The environment of the constructor's docstring example, with no settings file anywhere:
  \<^verbatim>\<open>
            >>> os.environ['MY_APP_SECTION1_SUBSECTION1'] = 'test1'
            >>> os.environ['MY_APP_SECTION2_SUBSECTION2'] = 'test2'
            >>> os.environ['MY_APP_SECTION2_SUBSECTION3'] = 'test3'
            >>> os.environ['MY_APP_SECTION3'] = 'not_captured'
  \<close>
\<close>

definition docstring_world :: world where
  "docstring_world =
     \<lparr> environ = [(''MY_APP_SECTION1_SUBSECTION1'', ''test1''),
                  (''MY_APP_SECTION2_SUBSECTION2'', ''test2''),
                  (''MY_APP_SECTION2_SUBSECTION3'', ''test3''),
                  (''MY_APP_SECTION3'', ''not_captured'')],
       isfile = (\<lambda>p. False),
       read_text = (\<lambda>p. Inl IOError),
       toml_loads = (\<lambda>s. Inl TomlDecodeError) \<rparr>"

text \<open>
  A world in which the environment and the one settings file \<^verbatim>\<open>conf.toml\<close> both set
  \<^verbatim>\<open>a.b\<close>; the file also sets \<^verbatim>\<open>a.c\<close>, the environment also \<^verbatim>\<open>d\<close>.
\<close>

definition file_world :: world where
  "file_world =
     \<lparr> environ = [(''APP_A_B'', ''from_env''), (''APP_D'', ''only_env'')],
       isfile = (\<lambda>p. p = ''conf.toml''),
       read_text = (\<lambda>p. if p = ''conf.toml'' then Inr ''[a]'' else Inl IOError),
       toml_loads = (\<lambda>s. Inr (PDict [(''a'', PDict [(''b'', PStr ''from_file''),
                                                      (''c'', PStr ''only_file'')])])) \<rparr>"

section \<open>Properties of the merge\<close>

lemma is_mapping_iff: "is_mapping v \<longleftrightarrow> (\<exists>kvs. v = PDict kvs)"
  by (cases v) auto

text \<open>Merging a non-empty mapping into something that is not a dictionary raises.\<close>

lemma update_items_not_mapping:
  "\<not> is_mapping d \<Longrightarrow>
     update_items d ((k, v) # rest) = Inl (if is_mapping v then AttributeError else TypeError)"
  by (cases d; cases v) auto

text \<open>One round of the loop, when the whole merge succeeds.\<close>

lemma update_items_step:
  assumes "update_items (PDict ds) ((k, v) # rest) = Inr res"
  shows "\<exists>r. (if is_mapping v
              then update_nested (case map_of ds k of None \<Rightarrow> PDict [] | Some d0 \<Rightarrow> d0) v = Inr r
              else r = v)
           \<and> update_items (PDict (AList.update k r ds)) rest = Inr res"
  using assms by (cases v) (auto split: sum.splits option.splits)

lemma update_items_mapping:
  "update_items (PDict ds) us = Inr res \<Longrightarrow> is_mapping res"
proof (induction us arbitrary: ds)
  case Nil
  then show ?case by auto
next
  case (Cons a us)
  obtain k v where a: "a = (k, v)" by (cases a)
  from Cons.prems update_items_step [of ds k v us res] a
  obtain r where "update_items (PDict (AList.update k r ds)) us = Inr res" by auto
  then show ?case by (rule Cons.IH)
qed

text \<open>A key that the source does not have keeps its entry.\<close>

lemma update_items_other_key:
  "k \<notin> fst ` set us \<Longrightarrow> update_items (PDict ds) us = Inr res
     \<Longrightarrow> getitem res k = getitem (PDict ds) k"
proof (induction us arbitrary: ds)
  case Nil
  then show ?case by simp
next
  case (Cons a us)
  obtain k' v where a: "a = (k', v)" by (cases a)
  from Cons.prems(2) update_items_step [of ds k' v us res] a
  obtain r where r: "update_items (PDict (AList.update k' r ds)) us = Inr res" by auto
  from Cons.prems(1) a have "k \<noteq> k'" and "k \<notin> fst ` set us" by auto
  with Cons.IH [OF _ r] show ?case by (simp add: update_conv')
qed

text \<open>A key of the source: what the merged dictionary holds there.\<close>

lemma update_items_entry:
  assumes "distinct (map fst us)" and "map_of us k = Some v"
    and "update_items (PDict ds) us = Inr res"
  shows "\<exists>r. getitem res k = Inr r
           \<and> (if is_mapping v
                then update_nested (case map_of ds k of None \<Rightarrow> PDict [] | Some d0 \<Rightarrow> d0) v = Inr r
                else r = v)"
  using assms
proof (induction us arbitrary: ds)
  case Nil
  then show ?case by simp
next
  case (Cons a us)
  obtain k' v' where a: "a = (k', v')" by (cases a)
  from Cons.prems(3) update_items_step [of ds k' v' us res] a
  obtain r where r1: "if is_mapping v'
              then update_nested (case map_of ds k' of None \<Rightarrow> PDict [] | Some d0 \<Rightarrow> d0) v' = Inr r
              else r = v'"
    and r2: "update_items (PDict (AList.update k' r ds)) us = Inr res" by auto
  show ?case
  proof (cases "k' = k")
    case True
    with Cons.prems(1) a have "k \<notin> fst ` set us" by auto
    from update_items_other_key [OF this r2] True
    have "getitem res k = Inr r" by (simp add: update_conv')
    moreover from True Cons.prems(2) a have "v' = v" by simp
    ultimately show ?thesis using r1 True by auto
  next
    case False
    with Cons.prems a have d: "distinct (map fst us)" and m: "map_of us k = Some v" by auto
    from False have "map_of (AList.update k' r ds) k = map_of ds k" by (simp add: update_conv')
    with Cons.IH [OF d m r2] show ?thesis by (cases "is_mapping v") auto
  qed
qed

text \<open>Every leaf of the source is a leaf of the merged dictionary, at the same path.\<close>

lemma update_nested_leaf_path:
  "well_formed u \<Longrightarrow> update_nested d u = Inr res \<Longrightarrow> lookup_path u p = Some v
     \<Longrightarrow> \<not> is_mapping v \<Longrightarrow> lookup_path res p = Some v"
proof (induction p arbitrary: d u res)
  case Nil
  then show ?case by (cases u) auto
next
  case (Cons k ks)
  from Cons.prems(2) obtain us where u: "u = PDict us" by (cases u) auto
  with Cons.prems(3) obtain v0 where v0: "map_of us k = Some v0"
    and lp: "lookup_path v0 ks = Some v"
    by (auto split: option.splits)
  from v0 obtain a rest where us: "us = a # rest" by (cases us) auto
  obtain ka va where "a = (ka, va)" by (cases a)
  with us u Cons.prems(2) update_items_not_mapping [of d ka va rest]
  have "is_mapping d" by auto
  then obtain ds where d: "d = PDict ds" by (auto simp: is_mapping_iff)
  from Cons.prems(1) u have dist: "distinct (map fst us)" by simp
  from Cons.prems(2) u d have ui: "update_items (PDict ds) us = Inr res" by simp
  from update_items_entry [OF dist v0 ui]
  obtain r where gr: "getitem res k = Inr r"
    and r: "if is_mapping v0
            then update_nested (case map_of ds k of None \<Rightarrow> PDict [] | Some d0 \<Rightarrow> d0) v0 = Inr r
            else r = v0" by auto
  from update_items_mapping [OF ui] obtain rs where rs: "res = PDict rs"
    by (auto simp: is_mapping_iff)
  with gr have mr: "map_of rs k = Some r" by (auto split: option.splits)
  have "lookup_path r ks = Some v"
  proof (cases "is_mapping v0")
    case True
    with r have un:
      "update_nested (case map_of ds k of None \<Rightarrow> PDict [] | Some d0 \<Rightarrow> d0) v0 = Inr r"
      by simp
    from Cons.prems(1) u v0 have "well_formed v0" by (auto dest!: map_of_SomeD)
    from Cons.IH [OF this un lp Cons.prems(4)] show ?thesis .
  next
    case False
    with r have "r = v0" by simp
    with lp show ?thesis by simp
  qed
  with rs mr show ?case by simp
qed

section \<open>The claims\<close>

text \<open>
  C1. The docstring example of the constructor: with the four \<^verbatim>\<open>MY_APP_\<close> variables,
  \<^verbatim>\<open>env_prefix='MY_APP'\<close> and
  \<^verbatim>\<open>filters={'section1': 'subsection1', 'section2': None}\<close> the docstring promises the
  map \<^verbatim>\<open>{'section1': {'subsection1': 'test1'}, 'section2': {...}}\<close>. The code does not
  produce it: the first pair of the filter selects the string \<^verbatim>\<open>'test1'\<close>, and
  \<^verbatim>\<open>new_data.update('test1')\<close> raises \<^verbatim>\<open>ValueError\<close>, so the construction fails.
\<close>

theorem settings_docstring_example_raises:
  "map_sum id st_data
     (snd (Settings docstring_world None ''MY_APP'' ''SETTINGS_FILE''
             (FMapping [(''section1'', FStr ''subsection1''), (''section2'', FNone)])
             (NotCallable PNone)))
   = Inl ValueError"
  by code_simp

text \<open>
  C2. Filtering with the keyed filter \<^verbatim>\<open>{'a': 'b'}\<close> is claimed to give the selection
  wrapped back under the key \<^verbatim>\<open>'a'\<close>. The code copies the entries of the selection into
  the result at top level: on \<^verbatim>\<open>{'a': {'b': {'c': 'v'}}}\<close> it returns
  \<^verbatim>\<open>{'c': 'v'}\<close>, with no key \<^verbatim>\<open>'a'\<close>.
\<close>

theorem subtree_keyed_filter_not_wrapped:
  "subtree (PDict [(''a'', PDict [(''b'', PDict [(''c'', PStr ''v'')])])])
           (FMapping [(''a'', FStr ''b'')]) [''settings'']
   = ([], Inr (PDict [(''c'', PStr ''v'')], OtherObject))"
  by code_simp

text \<open>
  C3. The construction merges the map of the environment into an empty map and then the
  map of the settings file on top, the environment being read before the file; every leaf
  of the file's map is in the merged map at the same path, whatever the environment set
  there.
\<close>

theorem merge_sources_file_wins:
  assumes "settings_parse_env_vars w env_prefix var = (ev1, Inr env_map)"
    and "read_file w settings_file = (ev2, Inr file_map)"
    and "merge_sources w env_prefix var settings_file = (ev, Inr merged)"
    and "well_formed file_map"
    and "lookup_path file_map p = Some v" and "\<not> is_mapping v"
  shows "\<exists>settings_map. update_nested (PDict []) env_map = Inr settings_map
           \<and> update_nested settings_map file_map = Inr merged
           \<and> ev = ev1 @ ev2
           \<and> lookup_path merged p = Some v"
proof -
  from assms(1-3) obtain settings_map where
    m1: "update_nested (PDict []) env_map = Inr settings_map"
    and m2: "update_nested settings_map file_map = Inr merged"
    and e: "ev = ev1 @ ev2"
    by (auto simp: merge_sources_def io_bind_def pure_io_def split: sum.splits)
  from update_nested_leaf_path [OF assms(4) m2 assms(5,6)]
  have "lookup_path merged p = Some v" .
  with m1 m2 e show ?thesis by blast
qed

theorem merge_sources_file_wins_witness:
  "lookup_path (PDict [(''a'', PDict [(''b'', PStr ''from_env'')]), (''d'', PStr ''only_env'')])
      [''a'', ''b''] = Some (PStr ''from_env'')
   \<and> (\<exists>settings_map.
         update_nested (PDict [])
           (PDict [(''a'', PDict [(''b'', PStr ''from_env'')]), (''d'', PStr ''only_env'')])
           = Inr settings_map
       \<and> update_nested settings_map
           (PDict [(''a'', PDict [(''b'', PStr ''from_file''), (''c'', PStr ''only_file'')])])
           = Inr (PDict [(''a'', PDict [(''b'', PStr ''from_file''), (''c'', PStr ''only_file'')]),
                         (''d'', PStr ''only_env'')])
       \<and> lookup_path
           (PDict [(''a'', PDict [(''b'', PStr ''from_file''), (''c'', PStr ''only_file'')]),
                   (''d'', PStr ''only_env'')])
           [''a'', ''b''] = Some (PStr ''from_file''))"
proof -
  have h1: "settings_parse_env_vars file_world ''APP'' ''APP_SETTINGS_FILE''
      = ([EnvScan, LogInfo ''Getting settings from env var: APP_A_B'',
          LogInfo ''Getting settings from env var: APP_D''],
         Inr (PDict [(''a'', PDict [(''b'', PStr ''from_env'')]), (''d'', PStr ''only_env'')]))"
    by code_simp
  have h2: "read_file file_world (Some ''conf.toml'')
      = ([IsFile ''conf.toml'', OpenFile ''conf.toml''],
         Inr (PDict [(''a'', PDict [(''b'', PStr ''from_file''), (''c'', PStr ''only_file'')])]))"
    by code_simp
  have h3: "merge_sources file_world ''APP'' ''APP_SETTINGS_FILE'' (Some ''conf.toml'')
      = ([EnvScan, LogInfo ''Getting settings from env var: APP_A_B'',
          LogInfo ''Getting settings from env var: APP_D'',
          IsFile ''conf.toml'', OpenFile ''conf.toml''],
         Inr (PDict [(''a'', PDict [(''b'', PStr ''from_file''), (''c'', PStr ''only_file'')]),
                     (''d'', PStr ''only_env'')]))"
    by code_simp
  have h4: "well_formed
      (PDict [(''a'', PDict [(''b'', PStr ''from_file''), (''c'', PStr ''only_file'')])])"
    by simp
  have h5: "lookup_path
      (PDict [(''a'', PDict [(''b'', PStr ''from_file''), (''c'', PStr ''only_file'')])])
      [''a'', ''b''] = Some (PStr ''from_file'')"
    by simp
  have h6: "\<not> is_mapping (PStr ''from_file'')" by simp
  have h0: "lookup_path
      (PDict [(''a'', PDict [(''b'', PStr ''from_env'')]), (''d'', PStr ''only_env'')])
      [''a'', ''b''] = Some (PStr ''from_env'')"
    by simp
  from merge_sources_file_wins [OF h1 h2 h3 h4 h5 h6] h0 show ?thesis by blast
qed

text \<open>
  C4. For every \<^verbatim>\<open>data\<close>, filtering with an empty (falsy) filter or with the wildcard
  \<^verbatim>\<open>'*'\<close> returns the object passed as \<^verbatim>\<open>data\<close> itself: no copy is made, nothing is
  logged, and the result is in particular equal to \<^verbatim>\<open>data\<close>.
\<close>

theorem subtree_empty_or_wildcard_same_object:
  "\<not> truthy filters \<or> filters = FStr ''*''
     \<Longrightarrow> subtree data filters parent_hierarchy = ([], Inr (data, SameObject))"
  by simp

theorem subtree_empty_or_wildcard_same_object_witness:
  "\<not> truthy FNone
   \<and> subtree (PDict [(''a'', PStr ''x'')]) FNone [''settings'']
       = ([], Inr (PDict [(''a'', PStr ''x'')], SameObject))
   \<and> subtree (PDict [(''a'', PStr ''x'')]) (FStr ''*'') [''settings'']
       = ([], Inr (PDict [(''a'', PStr ''x'')], SameObject))"
proof -
  have h1: "\<not> truthy FNone \<or> FNone = FStr ''*''" by simp
  have h2: "\<not> truthy (FStr ''*'') \<or> FStr ''*'' = FStr ''*''" by simp
  from subtree_empty_or_wildcard_same_object [OF h1]
       subtree_empty_or_wildcard_same_object [OF h2]
  show ?thesis by simp
qed

text \<open>
  C5. For every map \<^verbatim>\<open>data\<close> and every single-key filter \<open>k\<close> (a string that is neither
  the empty filter nor the wildcard marker \<^verbatim>\<open>'*'\<close>, which are the pass-through filters
  of C4) that is not a key of \<^verbatim>\<open>data\<close>, filtering by \<open>k\<close> returns an empty map, logs
  exactly one warning, which names the dotted parent path followed by \<open>k\<close>, and raises
  nothing.
\<close>

theorem subtree_missing_key:
  "map_of kvs k = None \<Longrightarrow> k \<noteq> [] \<Longrightarrow> k \<noteq> ''*''
     \<Longrightarrow> subtree (PDict kvs) (FStr k) parent_hierarchy
         = ([''Section '' @ join ''.'' parent_hierarchy @ ''.'' @ k @ '' not found in data''],
            Inr (PDict [], OtherObject))"
  by (simp add: not_found_msg_def)

theorem subtree_missing_key_witness:
  "map_of [(''x'', PStr ''y'')] ''missing_key'' = None
   \<and> subtree (PDict [(''x'', PStr ''y'')]) (FStr ''missing_key'') [''settings'', ''db'']
       = ([''Section settings.db.missing_key not found in data''], Inr (PDict [], OtherObject))"
proof -
  have h1: "map_of [(''x'', PStr ''y'')] ''missing_key'' = None" by simp
  have h2: "''missing_key'' \<noteq> []" by simp
  have h3: "''missing_key'' \<noteq> ''*''" by simp
  from subtree_missing_key [OF h1 h2 h3, of "[''settings'', ''db'']"] h1
  show ?thesis by simp
qed

text \<open>
  C6, as claimed, fails: the number 0 is not callable, and with it as \<^verbatim>\<open>parser\<close> the
  constructor raises nothing; it reads the environment and builds the settings, because
  the test is \<^verbatim>\<open>if parser and not callable(parser)\<close>.
\<close>

theorem settings_falsy_parser_accepted:
  "\<not> callable (NotCallable (PInt 0))
   \<and> fst (Settings docstring_world None ''MY_APP'' ''SETTINGS_FILE'' FNone (NotCallable (PInt 0)))
       = [EnvGet ''MY_APP_SETTINGS_FILE'', EnvScan,
          LogInfo ''Getting settings from env var: MY_APP_SECTION1_SUBSECTION1'',
          LogInfo ''Getting settings from env var: MY_APP_SECTION2_SUBSECTION2'',
          LogInfo ''Getting settings from env var: MY_APP_SECTION2_SUBSECTION3'',
          LogInfo ''Getting settings from env var: MY_APP_SECTION3'']
   \<and> map_sum id st_data
       (snd (Settings docstring_world None ''MY_APP'' ''SETTINGS_FILE'' FNone
               (NotCallable (PInt 0))))
       = Inr (PDict [(''section1'', PDict [(''subsection1'', PStr ''test1'')]),
                     (''section2'', PDict [(''subsection2'', PStr ''test2''),
                                           (''subsection3'', PStr ''test3'')]),
                     (''section3'', PStr ''not_captured'')])"
  by code_simp

text \<open>
  C6, amended. For every truthy value that is not callable passed as \<^verbatim>\<open>parser\<close>, the
  construction raises \<^verbatim>\<open>TypeError\<close> at once: no environment variable is read, no file is
  touched, nothing is logged and no settings object is built.
\<close>

theorem settings_noncallable_parser:
  "parser_truthy parser \<Longrightarrow> \<not> callable parser
     \<Longrightarrow> Settings w settings_file env_prefix settings_file_env_suffix filters parser
         = ([], Inl TypeError)"
  by (simp add: Settings_def)

theorem settings_noncallable_parser_witness:
  "parser_truthy (NotCallable (PStr ''json'')) \<and> \<not> callable (NotCallable (PStr ''json''))
   \<and> Settings file_world (Some ''conf.toml'') ''APP'' ''SETTINGS_FILE'' FNone
        (NotCallable (PStr ''json''))
       = ([], Inl TypeError)"
proof -
  have h1: "parser_truthy (NotCallable (PStr ''json''))" by simp
  have h2: "\<not> callable (NotCallable (PStr ''json''))" by simp
  from settings_noncallable_parser [OF h1 h2] h1 h2 show ?thesis by simp
qed

text \<open>
  C7. A variable whose name is the prefix alone is claimed to be skipped. The code keeps
  it: \<^verbatim>\<open>''.split('_', 1)\<close> is \<^verbatim>\<open>['']\<close>, which is not empty, so the guard
  \<^verbatim>\<open>if not nested_keys: continue\<close> does not fire, and the variable \<^verbatim>\<open>MY_APP_\<close> gives the
  entry with the empty key.
\<close>

theorem parse_env_vars_empty_name_kept:
  "parse_env_vars [(''MY_APP_'', ''x'')] (Some ''MY_APP'') 1 ''_'' []
   = ([EnvScan, LogInfo ''Getting settings from env var: MY_APP_''],
      Inr (PDict [('''', PStr ''x'')]))"
  by code_simp

text \<open>
  C8, as claimed, fails: where the destination holds the string \<^verbatim>\<open>'1'\<close> at \<^verbatim>\<open>'x'\<close> and
  the source a non-empty map there, the merge does not start from an empty map (which
  would give \<^verbatim>\<open>{'q': '2'}\<close>) but raises \<^verbatim>\<open>TypeError\<close>, the string being handed to the
  recursive call as destination; with an empty source map the string is kept.
\<close>

theorem update_nested_scalar_dest_raises:
  "update_nested (PDict [(''x'', PStr ''1'')]) (PDict [(''x'', PDict [(''q'', PStr ''2'')])])
     = Inl TypeError
   \<and> update_nested (PDict []) (PDict [(''q'', PStr ''2'')]) = Inr (PDict [(''q'', PStr ''2'')])
   \<and> update_nested (PDict [(''x'', PStr ''1'')]) (PDict [(''x'', PDict [])])
     = Inr (PDict [(''x'', PStr ''1'')])"
  by code_simp

text \<open>
  C8, amended. For all maps \<open>dest\<close> and \<open>src\<close> and every key \<open>k\<close> of \<open>src\<close>: if
  \<open>src[k]\<close> is a map, a merge that returns leaves at \<open>k\<close> the recursive merge of
  \<open>src[k]\<close> into \<open>dest[k]\<close>, an empty map taking the place of \<open>dest[k]\<close> when \<open>k\<close> is
  absent from \<open>dest\<close>; if \<open>src[k]\<close> is not a map, it leaves \<open>src[k]\<close> at \<open>k\<close>. When
  \<open>dest[k]\<close> is a scalar and \<open>src[k]\<close> a map, the scalar is kept if \<open>src[k]\<close> is empty,
  and otherwise the merge raises.
\<close>

theorem update_nested_entry:
  assumes "distinct (map fst us)" and "map_of us k = Some v"
  shows "(\<forall>res. update_nested (PDict ds) (PDict us) = Inr res \<longrightarrow>
            (\<exists>r. getitem res k = Inr r
               \<and> (if is_mapping v
                    then update_nested
                           (case map_of ds k of None \<Rightarrow> PDict [] | Some d0 \<Rightarrow> d0) v = Inr r
                    else r = v)))
       \<and> (\<forall>d0. map_of ds k = Some d0 \<and> \<not> is_mapping d0 \<and> is_mapping v \<longrightarrow>
            (if v = PDict [] then update_nested d0 v = Inr d0
             else isl (update_nested d0 v) \<and> isl (update_nested (PDict ds) (PDict us))))"
proof (intro conjI allI impI)
  fix res
  assume "update_nested (PDict ds) (PDict us) = Inr res"
  then have "update_items (PDict ds) us = Inr res" by simp
  from update_items_entry [OF assms this]
  show "\<exists>r. getitem res k = Inr r
          \<and> (if is_mapping v
               then update_nested
                      (case map_of ds k of None \<Rightarrow> PDict [] | Some d0 \<Rightarrow> d0) v = Inr r
               else r = v)" .
next
  fix d0
  assume a: "map_of ds k = Some d0 \<and> \<not> is_mapping d0 \<and> is_mapping v"
  then obtain vs where v: "v = PDict vs" by (auto simp: is_mapping_iff)
  show "if v = PDict [] then update_nested d0 v = Inr d0
        else isl (update_nested d0 v) \<and> isl (update_nested (PDict ds) (PDict us))"
  proof (cases vs)
    case Nil
    with v show ?thesis by simp
  next
    case (Cons e rest)
    obtain ke ve where "e = (ke, ve)" by (cases e)
    with a v Cons update_items_not_mapping [of d0 ke ve rest]
    have inner: "isl (update_nested d0 v)" by simp
    have "isl (update_nested (PDict ds) (PDict us))"
    proof (rule ccontr)
      assume "\<not> isl (update_nested (PDict ds) (PDict us))"
      then obtain res where "update_items (PDict ds) us = Inr res"
        by (cases "update_items (PDict ds) us") auto
      from update_items_entry [OF assms this] a
      have "\<exists>r. update_nested d0 v = Inr r" by auto
      with inner show False by auto
    qed
    with inner v Cons show ?thesis by simp
  qed
qed

theorem update_nested_entry_witness:
  "getitem (PDict [(''a'', PDict [(''x'', PStr ''1''), (''y'', PStr ''2'')]),
                   (''s'', PStr ''9''), (''n'', PDict [(''z'', PStr ''3'')])]) ''a''
     = update_nested (PDict [(''x'', PStr ''1'')]) (PDict [(''y'', PStr ''2'')])
   \<and> getitem (PDict [(''a'', PDict [(''x'', PStr ''1''), (''y'', PStr ''2'')]),
                   (''s'', PStr ''9''), (''n'', PDict [(''z'', PStr ''3'')])]) ''n''
     = update_nested (PDict []) (PDict [(''z'', PStr ''3'')])
   \<and> getitem (PDict [(''a'', PDict [(''x'', PStr ''1''), (''y'', PStr ''2'')]),
                   (''s'', PStr ''9''), (''n'', PDict [(''z'', PStr ''3'')])]) ''s''
     = Inr (PStr ''9'')
   \<and> isl (update_nested (PDict [(''a'', PDict [(''x'', PStr ''1'')]), (''s'', PStr ''0'')])
                         (PDict [(''s'', PDict [(''t'', PStr ''4'')])]))"
proof -
  let ?ds = "[(''a'', PDict [(''x'', PStr ''1'')]), (''s'', PStr ''0'')]"
  let ?us = "[(''a'', PDict [(''y'', PStr ''2'')]), (''n'', PDict [(''z'', PStr ''3'')]),
              (''s'', PStr ''9'')]"
  let ?res = "PDict [(''a'', PDict [(''x'', PStr ''1''), (''y'', PStr ''2'')]),
                     (''s'', PStr ''9''), (''n'', PDict [(''z'', PStr ''3'')])]"
  have d: "distinct (map fst ?us)" by simp
  have run: "update_nested (PDict ?ds) (PDict ?us) = Inr ?res" by code_simp
  have ma: "map_of ?us ''a'' = Some (PDict [(''y'', PStr ''2'')])" by simp
  have mn: "map_of ?us ''n'' = Some (PDict [(''z'', PStr ''3'')])" by simp
  have ms: "map_of ?us ''s'' = Some (PStr ''9'')" by simp
  from update_nested_entry [OF d ma, of ?ds] run
  have c1: "getitem ?res ''a''
      = update_nested (PDict [(''x'', PStr ''1'')]) (PDict [(''y'', PStr ''2'')])"
    by auto
  from update_nested_entry [OF d mn, of ?ds] run
  have c2: "getitem ?res ''n'' = update_nested (PDict []) (PDict [(''z'', PStr ''3'')])"
    by auto
  from update_nested_entry [OF d ms, of ?ds] run
  have c3: "getitem ?res ''s'' = Inr (PStr ''9'')"
    by auto
  have d': "distinct (map fst [(''s'', PDict [(''t'', PStr ''4'')])])" by simp
  have ms': "map_of [(''s'', PDict [(''t'', PStr ''4'')])] ''s'' = Some (PDict [(''t'', PStr ''4'')])"
    by simp
  from update_nested_entry [OF d' ms', of ?ds]
  have c4: "isl (update_nested (PDict ?ds) (PDict [(''s'', PDict [(''t'', PStr ''4'')])]))"
    by auto
  from c1 c2 c3 c4 show ?thesis by blast
qed

text \<open>
  C9, as claimed, fails: where \<^verbatim>\<open>data['a']\<close> and \<^verbatim>\<open>data['b']\<close> both have a map at
  \<^verbatim>\<open>'x'\<close>, filtering with \<^verbatim>\<open>['a', 'b']\<close> keeps only the second one's \<^verbatim>\<open>'x'\<close>, while
  the deep merge \<^verbatim>\<open>update_nested\<close> of the two selections holds the entries of both.
\<close>

theorem subtree_iterable_not_deep_merge:
  "subtree (PDict [(''a'', PDict [(''x'', PDict [(''p'', PStr ''1'')])]),
                   (''b'', PDict [(''x'', PDict [(''q'', PStr ''2'')])])])
           (FIterable [FStr ''a'', FStr ''b'']) []
     = ([], Inr (PDict [(''x'', PDict [(''q'', PStr ''2'')])], OtherObject))
   \<and> subtree (PDict [(''a'', PDict [(''x'', PDict [(''p'', PStr ''1'')])]),
                     (''b'', PDict [(''x'', PDict [(''q'', PStr ''2'')])])])
             (FStr ''a'') []
     = ([], Inr (PDict [(''x'', PDict [(''p'', PStr ''1'')])], OtherObject))
   \<and> subtree (PDict [(''a'', PDict [(''x'', PDict [(''p'', PStr ''1'')])]),
                     (''b'', PDict [(''x'', PDict [(''q'', PStr ''2'')])])])
             (FStr ''b'') []
     = ([], Inr (PDict [(''x'', PDict [(''q'', PStr ''2'')])], OtherObject))
   \<and> update_nested (PDict [(''x'', PDict [(''p'', PStr ''1'')])])
                   (PDict [(''x'', PDict [(''q'', PStr ''2'')])])
     = Inr (PDict [(''x'', PDict [(''p'', PStr ''1''), (''q'', PStr ''2'')])])
   \<and> lookup_path (PDict [(''x'', PDict [(''q'', PStr ''2'')])]) [''x'', ''p''] = None
   \<and> lookup_path (PDict [(''x'', PDict [(''p'', PStr ''1''), (''q'', PStr ''2'')])]) [''x'', ''p'']
     = Some (PStr ''1'')"
  by code_simp

text \<open>
  C9, amended. For every map \<^verbatim>\<open>data\<close> with the keys \<^verbatim>\<open>'a'\<close> and \<^verbatim>\<open>'b'\<close>, each
  element filter selects from the original \<^verbatim>\<open>data\<close>, and filtering with
  \<^verbatim>\<open>['a', 'b']\<close> is the result of \<^verbatim>\<open>dict.update\<close> of an empty map with the first
  selection and then with the second: a key of both takes the whole value of the second,
  with no merge below the top level (and \<^verbatim>\<open>dict.update\<close> raises on a selection that is
  a non-empty string or a number).
\<close>

theorem subtree_iterable_two_keys:
  "map_of kvs ''a'' = Some va \<Longrightarrow> map_of kvs ''b'' = Some vb
     \<Longrightarrow> subtree (PDict kvs) (FStr ''a'') parent_hierarchy = ([], Inr (va, OtherObject))
       \<and> subtree (PDict kvs) (FStr ''b'') parent_hierarchy = ([], Inr (vb, OtherObject))
       \<and> subtree (PDict kvs) (FIterable [FStr ''a'', FStr ''b'']) parent_hierarchy
         = ([], case dict_update [] va of
                  Inl e \<Rightarrow> Inl e
                | Inr new_data \<Rightarrow>
                    (case dict_update new_data vb of
                       Inl e \<Rightarrow> Inl e
                     | Inr new_data' \<Rightarrow> Inr (PDict new_data', OtherObject)))"
  by (simp split: sum.splits)

theorem subtree_iterable_two_keys_witness:
  "subtree (PDict [(''a'', PDict [(''x'', PStr ''1''), (''y'', PStr ''2'')]),
                   (''b'', PDict [(''y'', PStr ''3''), (''z'', PStr ''4'')]),
                   (''c'', PStr ''5'')])
           (FIterable [FStr ''a'', FStr ''b'']) [''settings'']
   = ([], Inr (PDict [(''x'', PStr ''1''), (''y'', PStr ''3''), (''z'', PStr ''4'')], OtherObject))"
proof -
  let ?kvs = "[(''a'', PDict [(''x'', PStr ''1''), (''y'', PStr ''2'')]),
               (''b'', PDict [(''y'', PStr ''3''), (''z'', PStr ''4'')]),
               (''c'', PStr ''5'')]"
  have h1: "map_of ?kvs ''a'' = Some (PDict [(''x'', PStr ''1''), (''y'', PStr ''2'')])" by simp
  have h2: "map_of ?kvs ''b'' = Some (PDict [(''y'', PStr ''3''), (''z'', PStr ''4'')])" by simp
  from subtree_iterable_two_keys [OF h1 h2, of "[''settings'']"]
  show ?thesis by simp
qed

text \<open>What the construction does once the file-reading step has returned \<^verbatim>\<open>None\<close>.\<close>

lemma io_bind_Inl: "io_bind (ev, Inl e) f = (ev, Inl e)"
  by (simp add: io_bind_def)

lemma io_bind_Inr: "io_bind (ev, Inr x) f = (case f x of (ev', r) \<Rightarrow> (ev @ ev', r))"
  by (simp add: io_bind_def)

lemma read_file_none:
  assumes "s \<noteq> []" and "\<not> isfile w s" and "\<not> startswith (lstrip_space s) ''[''"
  shows "read_file w (Some s) = ([IsFile s], Inr PNone)"
  using assms by (simp add: read_file_def)

lemma merge_sources_none:
  assumes rf: "read_file w (Some s) = ([IsFile s], Inr PNone)"
  shows "merge_sources w ep var (Some s) =
     (case settings_parse_env_vars w ep var of
        (ev, Inl e) \<Rightarrow> (ev, Inl e)
      | (ev, Inr env_map) \<Rightarrow>
          (case update_nested (PDict []) env_map of
             Inl e \<Rightarrow> (ev, Inl e)
           | Inr settings_map \<Rightarrow> (ev @ [IsFile s], Inl AttributeError)))"
proof (cases "settings_parse_env_vars w ep var")
  case (Pair ev r)
  show ?thesis
  proof (cases r)
    case (Inl e)
    with Pair show ?thesis by (simp add: merge_sources_def io_bind_Inl)
  next
    case (Inr env_map)
    show ?thesis
    proof (cases "update_nested (PDict []) env_map")
      case (Inl e)
      with Pair Inr show ?thesis
        by (simp add: merge_sources_def io_bind_Inl io_bind_Inr pure_io_def)
    next
      case (Inr settings_map)
      with Pair \<open>r = Inr env_map\<close> show ?thesis
        by (simp add: merge_sources_def io_bind_Inl io_bind_Inr pure_io_def rf)
    qed
  qed
qed

lemma settings_merge_error:
  assumes "\<not> (parser_truthy parser \<and> \<not> callable parser)" and "s \<noteq> []"
    and "merge_sources w (build_env_var [env_prefix] ''_'')
           (build_env_var [build_env_var [env_prefix] ''_'', suffix] ''_'') (Some s) = (ev, Inl e)"
  shows "Settings w (Some s) env_prefix suffix filters parser = (ev, Inl e)"
proof -
  have "settings_file_or_env w (Some s)
          (build_env_var [build_env_var [env_prefix] ''_'', suffix] ''_'') = ([], Inr (Some s))"
    using assms(2) by (simp add: settings_file_or_env_def)
  moreover have "build_settings_map w parser filters (build_env_var [env_prefix] ''_'')
          (build_env_var [build_env_var [env_prefix] ''_'', suffix] ''_'') (Some s) = (ev, Inl e)"
    using assms(3) by (simp add: build_settings_map_def io_bind_Inl)
  ultimately show ?thesis
    using assms(1) by (auto simp: Settings_def Let_def io_bind_Inl io_bind_Inr)
qed

text \<open>
  C10, as claimed, fails: the empty string is not the path of a file and does not begin
  with \<^verbatim>\<open>'['\<close>, and for it the file-reading step returns the empty map, not
  \<^verbatim>\<open>None\<close>, because of the test \<^verbatim>\<open>if self.settings_file\<close>; the construction succeeds.
\<close>

theorem settings_empty_file_string_accepted:
  "\<not> isfile docstring_world [] \<and> \<not> startswith (lstrip_space []) ''[''
   \<and> read_file docstring_world (Some []) = ([], Inr (PDict []))
   \<and> map_sum id st_data
       (snd (Settings docstring_world (Some []) ''X'' ''SETTINGS_FILE'' FNone (NotCallable PNone)))
     = Inr (PDict [])"
  by code_simp

text \<open>
  C10, amended. For every non-empty \<^verbatim>\<open>settings_file\<close> string that is neither the path of
  an existing file nor a text that begins with \<^verbatim>\<open>'['\<close> after its leading whitespace, the
  file-reading step returns \<^verbatim>\<open>None\<close>, merging \<^verbatim>\<open>None\<close> raises
  \<^verbatim>\<open>AttributeError\<close>, and the construction fails: with that error, after the
  environment has been read and the path tested, whenever the parser check and the
  merge of the environment have passed.
\<close>

theorem read_file_falls_through:
  assumes "s \<noteq> []" and "\<not> isfile w s" and "\<not> startswith (lstrip_space s) ''[''"
  shows "read_file w (Some s) = ([IsFile s], Inr PNone)
       \<and> update_nested settings_map PNone = Inl AttributeError
       \<and> isl (snd (Settings w (Some s) env_prefix suffix filters parser))
       \<and> (\<not> (parser_truthy parser \<and> \<not> callable parser)
            \<and> settings_parse_env_vars w (build_env_var [env_prefix] ''_'')
                 (build_env_var [build_env_var [env_prefix] ''_'', suffix] ''_'')
               = (ev, Inr env_map)
            \<and> update_nested (PDict []) env_map = Inr settings_map
          \<longrightarrow> Settings w (Some s) env_prefix suffix filters parser
               = (ev @ [IsFile s], Inl AttributeError))"
proof -
  let ?ep = "build_env_var [env_prefix] ''_''"
  let ?var = "build_env_var [build_env_var [env_prefix] ''_'', suffix] ''_''"
  from assms have rf: "read_file w (Some s) = ([IsFile s], Inr PNone)"
    by (rule read_file_none)
  have un: "update_nested settings_map PNone = Inl AttributeError" by simp
  note ms = merge_sources_none [OF rf, of ?ep ?var]
  have fails: "isl (snd (Settings w (Some s) env_prefix suffix filters parser))"
  proof (cases "parser_truthy parser \<and> \<not> callable parser")
    case True
    then show ?thesis by (simp add: Settings_def)
  next
    case False
    obtain ev' e where "merge_sources w ?ep ?var (Some s) = (ev', Inl e)"
      using ms by (auto split: prod.splits sum.splits)
    from settings_merge_error [OF False assms(1) this] show ?thesis by simp
  qed
  have precise: "Settings w (Some s) env_prefix suffix filters parser
               = (ev @ [IsFile s], Inl AttributeError)"
    if np: "\<not> (parser_truthy parser \<and> \<not> callable parser)"
      and pe: "settings_parse_env_vars w ?ep ?var = (ev, Inr env_map)"
      and m1: "update_nested (PDict []) env_map = Inr settings_map"
  proof -
    from ms pe m1 have "merge_sources w ?ep ?var (Some s) = (ev @ [IsFile s], Inl AttributeError)"
      by simp
    from settings_merge_error [OF np assms(1) this] show ?thesis .
  qed
  from rf un fails precise show ?thesis by blast
qed

theorem read_file_falls_through_witness:
  "''settings.ini'' \<noteq> [] \<and> \<not> isfile docstring_world ''settings.ini''
   \<and> \<not> startswith (lstrip_space ''settings.ini'') ''[''
   \<and> read_file docstring_world (Some ''settings.ini'') = ([IsFile ''settings.ini''], Inr PNone)
   \<and> snd (Settings docstring_world (Some ''settings.ini'') ''MY_APP'' ''SETTINGS_FILE'' FNone
            (NotCallable PNone))
     = Inl AttributeError"
proof -
  let ?env_map = "PDict [(''section1'', PDict [(''subsection1'', PStr ''test1'')]),
                         (''section2'', PDict [(''subsection2'', PStr ''test2''),
                                               (''subsection3'', PStr ''test3'')]),
                         (''section3'', PStr ''not_captured'')]"
  let ?ev = "[EnvScan,
              LogInfo ''Getting settings from env var: MY_APP_SECTION1_SUBSECTION1'',
              LogInfo ''Getting settings from env var: MY_APP_SECTION2_SUBSECTION2'',
              LogInfo ''Getting settings from env var: MY_APP_SECTION2_SUBSECTION3'',
              LogInfo ''Getting settings from env var: MY_APP_SECTION3'']"
  have h1: "''settings.ini'' \<noteq> []" by simp
  have h2: "\<not> isfile docstring_world ''settings.ini''" by (simp add: docstring_world_def)
  have h3: "\<not> startswith (lstrip_space ''settings.ini'') ''[''" by code_simp
  have h4: "\<not> (parser_truthy (NotCallable PNone) \<and> \<not> callable (NotCallable PNone))" by simp
  have h5: "settings_parse_env_vars docstring_world (build_env_var [''MY_APP''] ''_'')
                 (build_env_var [build_env_var [''MY_APP''] ''_'', ''SETTINGS_FILE''] ''_'')
      = (?ev, Inr ?env_map)"
    by code_simp
  have h6: "update_nested (PDict []) ?env_map = Inr ?env_map"
    by code_simp
  note t = read_file_falls_through [OF h1 h2 h3, where settings_map = ?env_map
      and env_prefix = "''MY_APP''" and suffix = "''SETTINGS_FILE''" and filters = FNone
      and parser = "NotCallable PNone" and ev = ?ev and env_map = ?env_map]
  from t have rf: "read_file docstring_world (Some ''settings.ini'')
      = ([IsFile ''settings.ini''], Inr PNone)"
    by (rule conjunct1)
  have "Settings docstring_world (Some ''settings.ini'') ''MY_APP'' ''SETTINGS_FILE'' FNone
          (NotCallable PNone) = (?ev @ [IsFile ''settings.ini''], Inl AttributeError)"
    by (rule mp [OF t [THEN conjunct2, THEN conjunct2, THEN conjunct2]])
       (intro conjI h4 h5 h6)
  then have s: "snd (Settings docstring_world (Some ''settings.ini'') ''MY_APP''
          ''SETTINGS_FILE'' FNone (NotCallable PNone)) = Inl AttributeError"
    by (rule ssubst) (rule snd_conv)
  from h1 h2 h3 rf s show ?thesis by (intro conjI)
qed

end
